theory Spec2Isabelle
  imports Complex_Main "HOL-Library.AList" "HOL-Library.Log_Nat"
begin

section \<open>JavaScript values used by the exam and grading code\<close>

text \<open>
  Strings are lists of characters, a character being a UTF-16 code unit below 256, which
  is all the type holds. \<open>trim\<close> strips white space and line terminators: below 256
  these are the code units 9 to 13, 32 and 160. \<open>toUpperCase\<close> follows the Unicode
  mapping: the letters a-z and the Latin-1 letters from 224 to 254 (247 apart) go to the
  letter 32 below, the letter 223 goes to SS, and every other character is left alone but
  for the two whose upper-case form is above 255 (181 and 255), which are kept as they
  are: neither form is a letter A-D, which is all the code asks of the result. The
  Vietnamese literals of the source are written without their diacritics.
\<close>

definition isWhiteSpace :: "char \<Rightarrow> bool" where
  "isWhiteSpace c =
     (c \<in> set [CHR 0x09, CHR 0x0A, CHR 0x0B, CHR 0x0C, CHR 0x0D, CHR '' '', CHR 0xA0])"

definition trim :: "string \<Rightarrow> string" where
  "trim s = rev (dropWhile isWhiteSpace (rev (dropWhile isWhiteSpace s)))"

definition lowerLetters :: string where
  "lowerLetters =
     ''abcdefghijklmnopqrstuvwxyz'' @
     [CHR 0xE0, CHR 0xE1, CHR 0xE2, CHR 0xE3, CHR 0xE4, CHR 0xE5, CHR 0xE6, CHR 0xE7,
      CHR 0xE8, CHR 0xE9, CHR 0xEA, CHR 0xEB, CHR 0xEC, CHR 0xED, CHR 0xEE, CHR 0xEF,
      CHR 0xF0, CHR 0xF1, CHR 0xF2, CHR 0xF3, CHR 0xF4, CHR 0xF5, CHR 0xF6,
      CHR 0xF8, CHR 0xF9, CHR 0xFA, CHR 0xFB, CHR 0xFC, CHR 0xFD, CHR 0xFE]"

definition upperLetters :: string where
  "upperLetters =
     ''ABCDEFGHIJKLMNOPQRSTUVWXYZ'' @
     [CHR 0xC0, CHR 0xC1, CHR 0xC2, CHR 0xC3, CHR 0xC4, CHR 0xC5, CHR 0xC6, CHR 0xC7,
      CHR 0xC8, CHR 0xC9, CHR 0xCA, CHR 0xCB, CHR 0xCC, CHR 0xCD, CHR 0xCE, CHR 0xCF,
      CHR 0xD0, CHR 0xD1, CHR 0xD2, CHR 0xD3, CHR 0xD4, CHR 0xD5, CHR 0xD6,
      CHR 0xD8, CHR 0xD9, CHR 0xDA, CHR 0xDB, CHR 0xDC, CHR 0xDD, CHR 0xDE]"

definition upperChar :: "char \<Rightarrow> string" where
  "upperChar c =
     (if c = CHR 0xDF then ''SS''
      else case map_of (zip lowerLetters upperLetters) c of
             None \<Rightarrow> [c]
           | Some u \<Rightarrow> [u])"

definition toUpperCase :: "string \<Rightarrow> string" where
  "toUpperCase s = concat (map upperChar s)"

text \<open>\<open>Array.prototype.indexOf\<close>: the first position holding the value, or -1.\<close>

fun indexOfFrom :: "'a list \<Rightarrow> 'a \<Rightarrow> int \<Rightarrow> int" where
  "indexOfFrom [] x i = - 1"
| "indexOfFrom (y # ys) x i = (if y = x then i else indexOfFrom ys x (i + 1))"

definition indexOf :: "'a list \<Rightarrow> 'a \<Rightarrow> int" where
  "indexOf xs x = indexOfFrom xs x 0"

text \<open>An array read \<open>xs[i]\<close>: \<open>undefined\<close> (here \<open>None\<close>) outside the array.\<close>

definition arrayGet :: "'a list \<Rightarrow> int \<Rightarrow> 'a option" where
  "arrayGet xs i = (if 0 \<le> i \<and> i < int (length xs) then Some (xs ! nat i) else None)"

text \<open>
  A plain object (\<open>Record<string, string>\<close>) is the list of its own properties, in
  the order of their creation (the order JavaScript keeps for names that are not array
  indices). A read
  \<open>obj[k]\<close> that finds no own property falls through to \<open>Object.prototype\<close>, whose
  property names are listed below; an assignment \<open>obj[k] = v\<close> of a string creates or
  overwrites an own property, except for the key \<open>__proto__\<close>, where the inherited
  setter discards a value that is not an object.
\<close>

type_synonym jsObject = "(string \<times> string) list"

definition objectPrototypeKeys :: "string list" where
  "objectPrototypeKeys =
     [''constructor'', ''__defineGetter__'', ''__defineSetter__'', ''hasOwnProperty'',
      ''__lookupGetter__'', ''__lookupSetter__'', ''isPrototypeOf'',
      ''propertyIsEnumerable'', ''toString'', ''valueOf'', ''__proto__'',
      ''toLocaleString'']"

datatype jsRead = Undefined | Str string | Inherited

definition jsGet :: "jsObject \<Rightarrow> string \<Rightarrow> jsRead" where
  "jsGet obj k =
     (case map_of obj k of
        Some v \<Rightarrow> Str v
      | None \<Rightarrow> if k \<in> set objectPrototypeKeys then Inherited else Undefined)"

definition jsSet :: "jsObject \<Rightarrow> string \<Rightarrow> string \<Rightarrow> jsObject" where
  "jsSet obj k v = (if k = ''__proto__'' then obj else AList.update k v obj)"

text \<open>Truthiness of what a read returns: \<open>undefined\<close> and the empty string are falsy.\<close>

fun truthy :: "jsRead \<Rightarrow> bool" where
  "truthy Undefined = False"
| "truthy (Str s) = (s \<noteq> [])"
| "truthy Inherited = True"

text \<open>Truthiness of a string that may be \<open>undefined\<close> or \<open>null\<close>.\<close>

fun truthyStr :: "string option \<Rightarrow> bool" where
  "truthyStr None = False"
| "truthyStr (Some s) = (s \<noteq> [])"

text \<open>\<open>Object.keys\<close>: the names of the own properties.\<close>

definition objectKeys :: "jsObject \<Rightarrow> string list" where
  "objectKeys obj = map fst obj"

section \<open>Numbers\<close>

text \<open>
  A JavaScript number is a double: a finite value, an infinity or \<open>NaN\<close>. \<open>Num r\<close> is the
  finite double of the exact value \<open>r\<close>; the sign of a zero is not kept, since nothing here
  divides by a zero. Every arithmetic operation rounds its exact result to the nearest
  double, a tie to the one with the even significand (53 bits, exponents from -1022 to
  1023, subnormal below), and gives an infinity from \<open>2 ^ 1024\<close> on.
\<close>

datatype jsNumber = Num rat | PosInfinity | NegInfinity | NaN

definition pow2 :: "int \<Rightarrow> rat" where
  "pow2 e = (if 0 \<le> e then 2 ^ nat e else 1 / 2 ^ nat (- e))"

text \<open>For \<open>x > 0\<close>, the exponent \<open>e\<close> with \<open>2 ^ e \<le> x < 2 ^ (e + 1)\<close>.\<close>

definition binExp :: "rat \<Rightarrow> int" where
  "binExp x = (if 1 \<le> x then bitlen \<lfloor>x\<rfloor> - 1 else - bitlen (\<lceil>1 / x\<rceil> - 1))"

definition roundHalfEven :: "rat \<Rightarrow> int" where
  "roundHalfEven m =
     (let f = \<lfloor>m\<rfloor>; d = m - of_int f
      in if d < 1 / 2 then f else if 1 / 2 < d then f + 1 else if even f then f else f + 1)"

definition roundToDouble :: "rat \<Rightarrow> jsNumber" where
  "roundToDouble x =
     (if x = 0 then Num 0
      else let a = \<bar>x\<bar>; e = max (binExp a) (- 1022); u = pow2 (e - 52);
               r = of_int (roundHalfEven (a / u)) * u
           in if pow2 1024 \<le> r then (if 0 < x then PosInfinity else NegInfinity)
              else Num (if 0 < x then r else - r))"

text \<open>The operator \<open>+\<close> on two numbers.\<close>

fun jsAdd :: "jsNumber \<Rightarrow> jsNumber \<Rightarrow> jsNumber" where
  "jsAdd (Num a) (Num b) = roundToDouble (a + b)"
| "jsAdd NaN y = NaN"
| "jsAdd x NaN = NaN"
| "jsAdd PosInfinity NegInfinity = NaN"
| "jsAdd NegInfinity PosInfinity = NaN"
| "jsAdd PosInfinity y = PosInfinity"
| "jsAdd x PosInfinity = PosInfinity"
| "jsAdd NegInfinity y = NegInfinity"
| "jsAdd x NegInfinity = NegInfinity"

text \<open>
  The operators \<open>/\<close> and \<open>*\<close> with a finite positive right operand, the only operands
  they get here (a positive \<open>maxScore\<close> and 10).
\<close>

fun jsDivide :: "jsNumber \<Rightarrow> rat \<Rightarrow> jsNumber" where
  "jsDivide (Num a) m = roundToDouble (a / m)"
| "jsDivide PosInfinity m = PosInfinity"
| "jsDivide NegInfinity m = NegInfinity"
| "jsDivide NaN m = NaN"

fun jsTimes :: "jsNumber \<Rightarrow> rat \<Rightarrow> jsNumber" where
  "jsTimes (Num a) m = roundToDouble (a * m)"
| "jsTimes PosInfinity m = PosInfinity"
| "jsTimes NegInfinity m = NegInfinity"
| "jsTimes NaN m = NaN"

text \<open>
  \<open>x.toFixed(1)\<close> for a finite \<open>x\<close> below \<open>10 ^ 21\<close> in magnitude, as the number its
  digits denote: \<open>toFixed\<close> takes the integer \<open>n\<close> with \<open>n / 10\<close> nearest to the exact
  magnitude of the double, the larger one of two, and keeps the sign.
\<close>

definition toFixed1 :: "rat \<Rightarrow> rat" where
  "toFixed1 x =
     (if x < 0 then - (of_int \<lfloor>- x * 10 + 1 / 2\<rfloor> / 10) else of_int \<lfloor>x * 10 + 1 / 2\<rfloor> / 10)"

text \<open>
  \<open>parseFloat(x.toFixed(1))\<close>: \<open>parseFloat\<close> gives the double nearest to the digits.
  From \<open>10 ^ 21\<close> on \<open>toFixed\<close> gives the digits of \<open>String(x)\<close>, which \<open>parseFloat\<close>
  reads back as \<open>x\<close>; the texts \<open>Infinity\<close>, \<open>-Infinity\<close> and \<open>NaN\<close> are read back as
  these values.
\<close>

fun parseFloatToFixed1 :: "jsNumber \<Rightarrow> jsNumber" where
  "parseFloatToFixed1 (Num x) = (if 10 ^ 21 \<le> \<bar>x\<bar> then Num x else roundToDouble (toFixed1 x))"
| "parseFloatToFixed1 PosInfinity = PosInfinity"
| "parseFloatToFixed1 NegInfinity = NegInfinity"
| "parseFloatToFixed1 NaN = NaN"

section \<open>The data model of types.ts\<close>

datatype QuestionType = MCQ | TRUE_FALSE | SHORT_ANSWER | ESSAY

record Question =
  qid :: string
  qtype :: QuestionType
  content :: string
  options :: "string list option"
  correctAnswer :: "string option"
  imageSvg :: "string option"

record Assignment =
  aid :: string
  title :: string
  subject :: string
  grade :: string
  topic :: string
  questions :: "Question list"
  createdAt :: nat

text \<open>
  The field \<open>answers\<close> of a submission holds an object. In the exam component it is a
  reference into the store of allocated objects (type \<open>nat\<close>), in the grading service it
  is read as the object itself.
\<close>

record 'a StudentSubmission =
  assignmentId :: string
  studentName :: string
  studentClass :: string
  answers :: 'a
  submittedAt :: nat

record GradingResult =
  score :: jsNumber
  totalScore :: jsNumber
  feedback :: jsObject
  overallComment :: string

section \<open>The exam session (component StudentExam)\<close>

text \<open>
  The state of the component: its \<open>useState\<close> cells, the interval created by the timer
  effect (\<open>timerActive\<close> until \<open>clearInterval\<close>), and the store of the objects that the
  cell \<open>answers\<close> has pointed to. The cell holds a reference: every answer change
  allocates a new object, and the object passed to \<open>onSubmit\<close> is the one the cell
  pointed to when the submission was confirmed.
\<close>

record examState =
  heap :: "jsObject list"
  answersCell :: nat
  isSubmitting :: bool
  currentQuestionIndex :: int
  isReviewing :: bool
  showSubmitModal :: bool
  timeLeft :: int
  showSidebar :: bool
  timerActive :: bool

definition initialExam :: examState where
  "initialExam =
     \<lparr>heap = [[]], answersCell = 0, isSubmitting = False, currentQuestionIndex = 0,
      isReviewing = False, showSubmitModal = False, timeLeft = 45 * 60,
      showSidebar = False, timerActive = True\<rparr>"

text \<open>The object the cell \<open>answers\<close> points to.\<close>

definition currentAnswers :: "examState \<Rightarrow> jsObject" where
  "currentAnswers s = heap s ! answersCell s"

text \<open>
  The callback of \<open>setInterval\<close>: it runs only while the interval is live, and the
  updater it passes to \<open>setTimeLeft\<close> clears the interval and returns 0 once the value
  is not positive.
\<close>

definition timerTick :: "examState \<Rightarrow> examState" where
  "timerTick s =
     (if \<not> timerActive s then s
      else if timeLeft s \<le> 0 then s\<lparr>timeLeft := 0, timerActive := False\<rparr>
      else s\<lparr>timeLeft := timeLeft s - 1\<rparr>)"

text \<open>
  \<open>setAnswers(prev => ({ ...prev, [qId]: val }))\<close>: a new object with the own
  properties of the previous one and the property \<open>qId\<close> set to \<open>val\<close> (a computed key
  of an object literal always defines an own property); the cell is pointed at it.
\<close>

definition spreadWith :: "jsObject \<Rightarrow> string \<Rightarrow> string \<Rightarrow> jsObject" where
  "spreadWith prev qId val = AList.update qId val prev"

definition handleAnswerChange :: "string \<Rightarrow> string \<Rightarrow> examState \<Rightarrow> examState" where
  "handleAnswerChange qId val s =
     s\<lparr>heap := heap s @ [spreadWith (currentAnswers s) qId val],
       answersCell := length (heap s)\<rparr>"

definition handlePreSubmit :: "examState \<Rightarrow> examState" where
  "handlePreSubmit s = s\<lparr>showSubmitModal := True\<rparr>"

text \<open>
  \<open>handleConfirmSubmit\<close> updates two cells and schedules the call of \<open>onSubmit\<close>. The
  scheduled closure holds the \<open>answers\<close> reference of the render in which the button was
  pressed and reads the clock when it runs: the second component maps that time to the
  submission handed to \<open>onSubmit\<close>.
\<close>

definition handleConfirmSubmit ::
  "Assignment \<Rightarrow> string \<Rightarrow> string \<Rightarrow> examState \<Rightarrow> examState \<times> (nat \<Rightarrow> nat StudentSubmission)" where
  "handleConfirmSubmit assignment name cls s =
     (s\<lparr>isSubmitting := True, showSubmitModal := False\<rparr>,
      \<lambda>now. \<lparr>assignmentId = aid assignment, studentName = name, studentClass = cls,
              answers = answersCell s, submittedAt = now\<rparr>)"

text \<open>A submission as its holder reads it: the \<open>answers\<close> reference followed.\<close>

definition readSubmission :: "jsObject list \<Rightarrow> nat StudentSubmission \<Rightarrow> jsObject StudentSubmission" where
  "readSubmission h sub =
     \<lparr>assignmentId = assignmentId sub, studentName = studentName sub,
      studentClass = studentClass sub, answers = h ! answers sub,
      submittedAt = submittedAt sub\<rparr>"

definition goToQuestion :: "Assignment \<Rightarrow> int \<Rightarrow> examState \<Rightarrow> examState" where
  "goToQuestion assignment index s =
     (if index \<ge> 0 \<and> index < int (length (questions assignment))
      then s\<lparr>currentQuestionIndex := index, isReviewing := False, showSidebar := False\<rparr>
      else s)"

definition handleNext :: "Assignment \<Rightarrow> examState \<Rightarrow> examState" where
  "handleNext assignment s =
     (if currentQuestionIndex s < int (length (questions assignment)) - 1
      then s\<lparr>currentQuestionIndex := currentQuestionIndex s + 1\<rparr>
      else s\<lparr>isReviewing := True\<rparr>)"

definition handlePrev :: "examState \<Rightarrow> examState" where
  "handlePrev s =
     (if isReviewing s then s\<lparr>isReviewing := False\<rparr>
      else if currentQuestionIndex s > 0
      then s\<lparr>currentQuestionIndex := currentQuestionIndex s - 1\<rparr>
      else s)"

text \<open>The figures of the submit dialogue and of the review screen.\<close>

definition answeredCount :: "examState \<Rightarrow> nat" where
  "answeredCount s = length (objectKeys (currentAnswers s))"

definition isAnswered :: "examState \<Rightarrow> string \<Rightarrow> bool" where
  "isAnswered s qId = truthy (jsGet (currentAnswers s) qId)"

text \<open>
  The events of a session, each run by its handler, and the states a session can be in.
\<close>

datatype event =
    Tick
  | AnswerChange string string
  | PreSubmit
  | ConfirmSubmit
  | GoToQuestion int
  | Next
  | Prev
  | SetReviewing bool
  | SetSidebar bool
  | CloseModal

fun handle :: "Assignment \<Rightarrow> event \<Rightarrow> examState \<Rightarrow> examState" where
  "handle a Tick s = timerTick s"
| "handle a (AnswerChange qId val) s = handleAnswerChange qId val s"
| "handle a PreSubmit s = handlePreSubmit s"
| "handle a ConfirmSubmit s = fst (handleConfirmSubmit a [] [] s)"
| "handle a (GoToQuestion i) s = goToQuestion a i s"
| "handle a Next s = handleNext a s"
| "handle a Prev s = handlePrev s"
| "handle a (SetReviewing b) s = s\<lparr>isReviewing := b\<rparr>"
| "handle a (SetSidebar b) s = s\<lparr>showSidebar := b\<rparr>"
| "handle a CloseModal s = s\<lparr>showSubmitModal := False\<rparr>"

inductive reachable :: "Assignment \<Rightarrow> examState \<Rightarrow> bool" for a :: Assignment where
  reachable_init: "reachable a initialExam"
| reachable_step: "reachable a s \<Longrightarrow> reachable a (handle a e s)"

text \<open>The two navigation states of the specification, read off the two cells.\<close>

datatype navState = Answering int | Reviewing

definition navOf :: "examState \<Rightarrow> navState" where
  "navOf s = (if isReviewing s then Reviewing else Answering (currentQuestionIndex s))"


definition letters :: "string list" where
  "letters = [''A'', ''B'', ''C'', ''D'']"


section \<open>The results screen (component ResultAnalysis)\<close>

text \<open>
  \<open>getMCQText\<close>: \<open>null\<close> is \<open>None\<close>. The guard \<open>idx !== -1 && q.options[idx]\<close>
  asks for a position and for a truthy option there, so a missing option and an empty
  option text both fall through to the key.
\<close>

definition getMCQText :: "Question \<Rightarrow> string option \<Rightarrow> string option" where
  "getMCQText q key =
     (if \<not> truthyStr key then None
      else if qtype q \<noteq> MCQ \<or> options q = None then key
      else let idx = indexOf letters (toUpperCase (trim (the key)))
           in if idx \<noteq> - 1 \<and> truthyStr (arrayGet (the (options q)) idx)
              then arrayGet (the (options q)) idx
              else key)"

section \<open>The grading service (gradeSubmission)\<close>

text \<open>
  What the collaborator is sent: the fields of the assignment and of the submission that
  the prompt interpolates.
\<close>

record gradingPrompt =
  promptSubject :: string
  promptTopic :: string
  promptGrade :: string
  promptQuestions :: "(string \<times> QuestionType \<times> string \<times> string option) list"
  promptAnswers :: jsObject

definition buildPrompt :: "Assignment \<Rightarrow> jsObject StudentSubmission \<Rightarrow> gradingPrompt" where
  "buildPrompt assignment submission =
     \<lparr>promptSubject = subject assignment, promptTopic = topic assignment,
      promptGrade = grade assignment,
      promptQuestions =
        map (\<lambda>q. (qid q, qtype q, content q, correctAnswer q)) (questions assignment),
      promptAnswers = answers submission\<rparr>"

text \<open>
  The call \<open>generateContent\<close> either rejects with a message or resolves with a response
  whose \<open>text\<close> may be \<open>undefined\<close>.
\<close>

datatype aiOutcome = Rejects string | Resolves "string option"

text \<open>
  The value \<open>JSON.parse\<close> returns, as far as the code looks into it. The response
  schema declares \<open>questionId\<close>, \<open>feedback\<close> and \<open>overallComment\<close> as strings; such a
  field may be missing or \<open>null\<close> all the same (\<open>None\<close>). A score is whatever the
  response holds: nothing or \<open>null\<close>, a number (a double, an infinity for a literal out
  of range), a boolean, a string, or an array or object, given by the text it converts
  to (\<open>[1,2]\<close> to \<open>1,2\<close>, an object to \<open>[object Object]\<close>).
\<close>

datatype scoreValue = NoScore | NumScore jsNumber | BoolScore bool | StrScore string | ObjScore string

text \<open>
  The two conversions between numbers and strings that the operators apply,
  \<open>Number::toString\<close> and \<open>StringToNumber\<close>, are parameters of the model.
\<close>

record conversions =
  numberToString :: "jsNumber \<Rightarrow> string"
  stringToNumber :: "string \<Rightarrow> jsNumber"

record assessment =
  questionId :: "string option"
  itemScore :: scoreValue
  itemFeedback :: "string option"

text \<open>
  An element of the array: \<open>null\<close>, on which the read \<open>item.questionId\<close> throws, or any
  other value (a value that is not an object has none of the three fields).
\<close>

datatype arrayItem = NullItem | Item assessment

text \<open>
  \<open>data.assessments\<close>: a falsy value (missing, \<open>null\<close>, \<open>false\<close>, 0, the empty
  string), a truthy value that is not an array (it has no method \<open>forEach\<close>), or an
  array.
\<close>

datatype assessmentsValue = FalsyValue | NotAnArray | ArrayOf "arrayItem list"

text \<open>The parsed value: \<open>null\<close>, on which the read \<open>data.assessments\<close> throws, or not.\<close>

datatype parsedJson = NullData | Data assessmentsValue "string option"

datatype thrown = Rejected string | SyntaxError | TypeError

datatype gradingError = GradingFailed thrown

subsection \<open>cleanJsonText\<close>

definition lastIndexOf :: "'a list \<Rightarrow> 'a \<Rightarrow> int" where
  "lastIndexOf xs x =
     (let i = indexOf (rev xs) x in if i = - 1 then - 1 else int (length xs) - 1 - i)"

definition substring :: "string \<Rightarrow> int \<Rightarrow> int \<Rightarrow> string" where
  "substring s from to = take (nat (to - from)) (drop (nat from) s)"

text \<open>\<open>text.replace(/pat/g, '')\<close> for a literal pattern: every match, left to right.\<close>

function removeAll :: "string \<Rightarrow> string \<Rightarrow> string" where
  "removeAll pat [] = []"
| "removeAll pat (c # cs) =
     (if pat \<noteq> [] \<and> take (length pat) (c # cs) = pat
      then removeAll pat (drop (length pat) (c # cs))
      else c # removeAll pat cs)"
  by pat_completeness auto
termination
  by (relation "measure (\<lambda>(pat, s). length s)") auto

definition cleanJsonText :: "string \<Rightarrow> string" where
  "cleanJsonText text =
     (if text = [] then ''{}''
      else let start = indexOf text CHR ''{''; end = lastIndexOf text CHR ''}''
           in if start \<noteq> - 1 \<and> end \<noteq> - 1 \<and> end > start
              then substring text start (end + 1)
              else trim (removeAll ''```'' (removeAll ''```json'' text)))"

subsection \<open>The reduction of the parsed response\<close>

definition noFeedback :: string where
  "noFeedback = ''Khong co nhan xet.''"

definition notAssessed :: string where
  "notAssessed = ''Chua co danh gia (Loi he thong hoac bo qua).''"

definition completed :: string where
  "completed = ''Da hoan thanh bai tap.''"

text \<open>\<open>s || d\<close> for a string that may be missing.\<close>

definition orElse :: "string option \<Rightarrow> string \<Rightarrow> string" where
  "orElse s d = (if truthyStr s then the s else d)"

text \<open>
  \<open>item.score || 0\<close>: the right operand of the addition. A falsy score (missing,
  \<open>null\<close>, \<open>false\<close>, 0, \<open>NaN\<close>, the empty string) gives the number 0; any other score is
  the operand itself: a number, \<open>true\<close>, or a text (a string, or the text an array or an
  object converts to).
\<close>

datatype operand = NumberOperand jsNumber | TrueOperand | TextOperand string

fun orZero :: "scoreValue \<Rightarrow> operand" where
  "orZero NoScore = NumberOperand (Num 0)"
| "orZero (NumScore n) = (if n = Num 0 \<or> n = NaN then NumberOperand (Num 0) else NumberOperand n)"
| "orZero (BoolScore b) = (if b then TrueOperand else NumberOperand (Num 0))"
| "orZero (StrScore s) = (if s = [] then NumberOperand (Num 0) else TextOperand s)"
| "orZero (ObjScore s) = TextOperand s"

text \<open>
  The variable \<open>earnedScore\<close> starts as the number 0. The operator \<open>+\<close> adds two
  numbers, takes \<open>true\<close> as 1 beside a number, and, as soon as one side is a text,
  concatenates the texts of both sides; from then on the variable holds a string.
\<close>

datatype earned = NumberEarned jsNumber | StringEarned string

fun jsPlus :: "conversions \<Rightarrow> earned \<Rightarrow> operand \<Rightarrow> earned" where
  "jsPlus conv (NumberEarned a) (NumberOperand n) = NumberEarned (jsAdd a n)"
| "jsPlus conv (NumberEarned a) TrueOperand = NumberEarned (jsAdd a (Num 1))"
| "jsPlus conv (NumberEarned a) (TextOperand s) = StringEarned (numberToString conv a @ s)"
| "jsPlus conv (StringEarned t) (NumberOperand n) = StringEarned (t @ numberToString conv n)"
| "jsPlus conv (StringEarned t) TrueOperand = StringEarned (t @ ''true'')"
| "jsPlus conv (StringEarned t) (TextOperand s) = StringEarned (t @ s)"

text \<open>\<open>earnedScore += (item.score || 0)\<close>.\<close>

definition addScore :: "conversions \<Rightarrow> earned \<Rightarrow> scoreValue \<Rightarrow> earned" where
  "addScore conv earnedScore v = jsPlus conv earnedScore (orZero v)"

text \<open>
  The first \<open>forEach\<close>, on the pair of \<open>feedbackMap\<close> and \<open>earnedScore\<close>; a throw ends
  it.
\<close>

fun forEachAssessment ::
  "conversions \<Rightarrow> arrayItem list \<Rightarrow> jsObject \<times> earned \<Rightarrow> thrown + jsObject \<times> earned" where
  "forEachAssessment conv [] acc = Inr acc"
| "forEachAssessment conv (NullItem # items) acc = Inl TypeError"
| "forEachAssessment conv (Item item # items) (feedbackMap, earnedScore) =
     (if truthyStr (questionId item)
      then forEachAssessment conv items
             (jsSet feedbackMap (the (questionId item)) (orElse (itemFeedback item) noFeedback),
              addScore conv earnedScore (itemScore item))
      else forEachAssessment conv items (feedbackMap, earnedScore))"

text \<open>The second \<open>forEach\<close>: the questions that have no truthy entry get the placeholder.\<close>

fun forEachQuestion :: "Question list \<Rightarrow> jsObject \<Rightarrow> jsObject" where
  "forEachQuestion [] feedbackMap = feedbackMap"
| "forEachQuestion (q # qs) feedbackMap =
     forEachQuestion qs
       (if \<not> truthy (jsGet feedbackMap (qid q)) then jsSet feedbackMap (qid q) notAssessed
        else feedbackMap)"

text \<open>
  \<open>maxScore > 0 ? (earnedScore / maxScore) * 10 : 0\<close>. The division takes the number
  of its left operand: a string is converted. \<open>maxScore\<close> is ten times the length of an
  array, an integer that doubles hold exactly.
\<close>

fun toNumber :: "conversions \<Rightarrow> earned \<Rightarrow> jsNumber" where
  "toNumber conv (NumberEarned n) = n"
| "toNumber conv (StringEarned s) = stringToNumber conv s"

definition normalizedScore :: "conversions \<Rightarrow> earned \<Rightarrow> rat \<Rightarrow> jsNumber" where
  "normalizedScore conv earnedScore maxScore =
     (if maxScore > 0 then jsTimes (jsDivide (toNumber conv earnedScore) maxScore) 10 else Num 0)"

text \<open>Lines 381 to 409: from the parsed value to the result, or to what is thrown.\<close>

definition reduceGrading :: "conversions \<Rightarrow> Assignment \<Rightarrow> parsedJson \<Rightarrow> thrown + GradingResult" where
  "reduceGrading conv assignment data =
     (let maxScore = rat_of_nat (length (questions assignment)) * 10
      in case data of
           NullData \<Rightarrow> Inl TypeError
         | Data NotAnArray comment \<Rightarrow> Inl TypeError
         | Data av comment \<Rightarrow>
             (let assessments = (case av of ArrayOf items \<Rightarrow> items | _ \<Rightarrow> [])
              in case forEachAssessment conv assessments ([], NumberEarned (Num 0)) of
                   Inl e \<Rightarrow> Inl e
                 | Inr (feedbackMap, earnedScore) \<Rightarrow>
                     Inr \<lparr>score = parseFloatToFixed1 (normalizedScore conv earnedScore maxScore),
                          totalScore = Num 10,
                          feedback = forEachQuestion (questions assignment) feedbackMap,
                          overallComment = orElse comment completed\<rparr>))"

text \<open>
  \<open>gradeSubmission\<close>, with the conversions, the collaborator and \<open>JSON.parse\<close>
  (\<open>None\<close> where it throws a SyntaxError) as parameters. Whatever is thrown inside the
  \<open>try\<close> block is caught and thrown again as the error "AI Grading failed".
\<close>

definition gradeSubmission ::
  "conversions \<Rightarrow> (gradingPrompt \<Rightarrow> aiOutcome) \<Rightarrow> (string \<Rightarrow> parsedJson option) \<Rightarrow>
   Assignment \<Rightarrow> jsObject StudentSubmission \<Rightarrow> gradingError + GradingResult" where
  "gradeSubmission conv generateContent jsonParse assignment submission =
     (case generateContent (buildPrompt assignment submission) of
        Rejects m \<Rightarrow> Inl (GradingFailed (Rejected m))
      | Resolves responseText \<Rightarrow>
          (case jsonParse (cleanJsonText (orElse responseText ''{}'')) of
             None \<Rightarrow> Inl (GradingFailed SyntaxError)
           | Some data \<Rightarrow>
               (case reduceGrading conv assignment data of
                  Inl e \<Rightarrow> Inl (GradingFailed e)
                | Inr r \<Rightarrow> Inr r)))"

subsection \<open>fetchGrade\<close>

datatype emailStatus = Idle | Sending | Success

record resultState =
  result :: "GradingResult option"
  loading :: bool
  errorMsg :: "gradingError option"
  emailState :: emailStatus

definition initialResult :: resultState where
  "initialResult = \<lparr>result = None, loading = True, errorMsg = None, emailState = Idle\<rparr>"

text \<open>
  \<open>fetchGrade\<close>, up to the end of its \<open>finally\<close> block. The cell \<open>errorMsg\<close> holds the
  message of the error caught; the model keeps the error.
\<close>

definition fetchGrade ::
  "conversions \<Rightarrow> (gradingPrompt \<Rightarrow> aiOutcome) \<Rightarrow> (string \<Rightarrow> parsedJson option) \<Rightarrow>
   Assignment \<Rightarrow> jsObject StudentSubmission \<Rightarrow> string \<Rightarrow> resultState \<Rightarrow> resultState" where
  "fetchGrade conv generateContent jsonParse assignment submission teacherEmail st =
     (let st1 = st\<lparr>loading := True, errorMsg := None\<rparr>
      in case gradeSubmission conv generateContent jsonParse assignment submission of
           Inr gradeResult \<Rightarrow>
             st1\<lparr>result := Some gradeResult,
                 emailState := (if teacherEmail \<noteq> [] then Sending else emailState st1),
                 loading := False\<rparr>
         | Inl error \<Rightarrow> st1\<lparr>errorMsg := Some error, loading := False\<rparr>)"

section \<open>Sessions and sample data\<close>

text \<open>A session runs a list of events; a list of answer changes is a list of pairs.\<close>

definition run :: "Assignment \<Rightarrow> event list \<Rightarrow> examState \<Rightarrow> examState" where
  "run a es s = foldl (\<lambda>st e. handle a e st) s es"

definition applyChanges :: "(string \<times> string) list \<Rightarrow> examState \<Rightarrow> examState" where
  "applyChanges cs s = foldl (\<lambda>st c. handleAnswerChange (fst c) (snd c) st) s cs"

definition threeQuestions :: Assignment where
  "threeQuestions =
     \<lparr>aid = ''a1'', title = ''t'', subject = ''s'', grade = ''g'', topic = ''p'',
      questions =
        [\<lparr>qid = ''q1'', qtype = MCQ, content = ''c1'', options = Some [''x'', ''y'', ''z'', ''w''],
          correctAnswer = Some ''B'', imageSvg = None\<rparr>,
         \<lparr>qid = ''q2'', qtype = TRUE_FALSE, content = ''c2'', options = None,
          correctAnswer = Some ''Sai'', imageSvg = None\<rparr>,
         \<lparr>qid = ''q3'', qtype = SHORT_ANSWER, content = ''c3'', options = None,
          correctAnswer = Some ''42'', imageSvg = None\<rparr>],
      createdAt = 0\<rparr>"

text \<open>Sample questions.\<close>

definition emptyOptionQuestion :: Question where
  "emptyOptionQuestion =
     \<lparr>qid = ''q1'', qtype = MCQ, content = ''c1'', options = Some ['''', ''y'', ''z'', ''w''],
      correctAnswer = Some ''B'', imageSvg = None\<rparr>"

definition letterQuestion :: Question where
  "letterQuestion =
     \<lparr>qid = ''q1'', qtype = MCQ, content = ''c1'', options = Some [''x'', ''y'', ''z'', ''w''],
      correctAnswer = Some ''B'', imageSvg = None\<rparr>"


definition shortQuestion :: Question where
  "shortQuestion =
     \<lparr>qid = ''q3'', qtype = SHORT_ANSWER, content = ''c3'', options = None,
      correctAnswer = Some ''42'', imageSvg = None\<rparr>"

definition oneQuestion :: "Question \<Rightarrow> Assignment" where
  "oneQuestion q =
     \<lparr>aid = ''a1'', title = ''t'', subject = ''s'', grade = ''g'', topic = ''p'',
      questions = [q], createdAt = 0\<rparr>"

section \<open>What the reduction accumulates\<close>

text \<open>
  The quantities in which the results of the reduction are stated, read off the loop
  body: an assessment takes part when its \<open>questionId\<close> is truthy, whether or not the
  assignment has a question of that identifier, and its score is added to the variable
  \<open>earnedScore\<close> in the order of the array.
\<close>

definition hasId :: "assessment \<Rightarrow> bool" where
  "hasId item = truthyStr (questionId item)"

definition earnedFrom :: "conversions \<Rightarrow> earned \<Rightarrow> assessment list \<Rightarrow> earned" where
  "earnedFrom conv start items =
     foldl (addScore conv) start (map itemScore (filter hasId items))"

definition earnedBy :: "conversions \<Rightarrow> assessment list \<Rightarrow> earned" where
  "earnedBy conv items = earnedFrom conv (NumberEarned (Num 0)) items"

definition assessedIds :: "assessment list \<Rightarrow> string set" where
  "assessedIds items = {k. k \<noteq> [] \<and> Some k \<in> questionId ` set items}"


text \<open>Sample responses, a sample submission, and assignments of four and of twenty questions.\<close>

definition scored :: "string \<Rightarrow> scoreValue \<Rightarrow> assessment" where
  "scored k v = \<lparr>questionId = Some k, itemScore = v, itemFeedback = Some ''ok''\<rparr>"

definition assessed :: "string \<Rightarrow> scoreValue \<Rightarrow> arrayItem" where
  "assessed k v = Item (scored k v)"



definition sampleSubmission :: "jsObject StudentSubmission" where
  "sampleSubmission =
     \<lparr>assignmentId = ''a1'', studentName = ''An'', studentClass = ''9A'',
      answers = [(''q1'', ''B'')], submittedAt = 7\<rparr>"

text \<open>The decimal digits of a natural number, and the number that decimal digits denote.\<close>

definition digitChars :: string where
  "digitChars = ''0123456789''"

fun digitsOf :: "nat \<Rightarrow> string" where
  "digitsOf n =
     (if n < 10 then [digitChars ! n] else digitsOf (n div 10) @ [digitChars ! (n mod 10)])"

declare digitsOf.simps [simp del]

definition valueOfDigits :: "string \<Rightarrow> nat" where
  "valueOfDigits s = foldl (\<lambda>n c. n * 10 + nat (indexOf digitChars c)) 0 s"


text \<open>
  Stand-ins for the two conversions and for the parser, for the sample responses. They
  give what the built-in functions give on the natural numbers below \<open>10 ^ 21\<close>, on the
  non-empty strings of decimal digits, and on the three texts \<open>{}\<close>, \<open>7\<close> and \<open>null\<close>;
  they are applied to nothing else.
\<close>

definition decimalConversions :: conversions where
  "decimalConversions =
     \<lparr>numberToString =
        (\<lambda>n. case n of
                Num r \<Rightarrow> if 0 \<le> r \<and> r < 10 ^ 21 \<and> r = of_int \<lfloor>r\<rfloor> then digitsOf (nat \<lfloor>r\<rfloor>)
                         else ''NaN''
              | _ \<Rightarrow> ''NaN''),
      stringToNumber =
        (\<lambda>s. if s \<noteq> [] \<and> set s \<subseteq> set digitChars then roundToDouble (of_nat (valueOfDigits s))
              else NaN)\<rparr>"

definition sampleParse :: "string \<Rightarrow> parsedJson option" where
  "sampleParse text =
     (if text = ''{}'' \<or> text = ''7'' then Some (Data FalsyValue None)
      else if text = ''null'' then Some NullData
      else None)"

section \<open>Properties\<close>

subsection \<open>Timer and navigation\<close>

lemma handle_timer:
  "0 \<le> timeLeft s \<and> (\<not> timerActive s \<longrightarrow> timeLeft s = 0) \<Longrightarrow>
   0 \<le> timeLeft (handle a e s) \<and> (\<not> timerActive (handle a e s) \<longrightarrow> timeLeft (handle a e s) = 0)"
  by (cases e)
     (auto simp: timerTick_def handleAnswerChange_def handlePreSubmit_def handleConfirmSubmit_def
        goToQuestion_def handleNext_def handlePrev_def)

lemma reachable_timer:
  "reachable a s \<Longrightarrow> 0 \<le> timeLeft s \<and> (\<not> timerActive s \<longrightarrow> timeLeft s = 0)"
proof (induction rule: reachable.induct)
  case reachable_init
  show ?case by (simp add: initialExam_def)
next
  case (reachable_step s e)
  from reachable_step.IH show ?case by (rule handle_timer)
qed

text \<open>
  C8. The countdown starts at 2700 seconds. In every state a session can reach the
  remaining time is not negative; a tick takes exactly one second off a positive value
  and leaves the value 0 at 0.
\<close>

theorem countdown_timer:
  "timeLeft initialExam = 2700 \<and>
   (reachable a s \<longrightarrow> 0 \<le> timeLeft s) \<and>
   (reachable a s \<and> 0 < timeLeft s \<longrightarrow> timeLeft (handle a Tick s) = timeLeft s - 1) \<and>
   (reachable a s \<and> timeLeft s = 0 \<longrightarrow> timeLeft (handle a Tick s) = 0)"
proof -
  have init: "timeLeft initialExam = 2700" by (simp add: initialExam_def)
  have inv: "reachable a s \<longrightarrow> 0 \<le> timeLeft s" using reachable_timer by blast
  have dec: "reachable a s \<and> 0 < timeLeft s \<longrightarrow> timeLeft (handle a Tick s) = timeLeft s - 1"
  proof
    assume h: "reachable a s \<and> 0 < timeLeft s"
    then have "timerActive s" using reachable_timer [of a s] by auto
    with h show "timeLeft (handle a Tick s) = timeLeft s - 1" by (simp add: timerTick_def)
  qed
  have clamp: "reachable a s \<and> timeLeft s = 0 \<longrightarrow> timeLeft (handle a Tick s) = 0"
    by (simp add: timerTick_def)
  from init inv dec clamp show ?thesis by blast
qed

theorem countdown_timer_witness:
  "reachable threeQuestions (handle threeQuestions Tick initialExam) \<and>
   0 < timeLeft (handle threeQuestions Tick initialExam) \<and>
   timeLeft (handle threeQuestions Tick (handle threeQuestions Tick initialExam)) = 2698"
proof -
  have r: "reachable threeQuestions (handle threeQuestions Tick initialExam)"
    by (intro reachable.intros)
  have v: "timeLeft (handle threeQuestions Tick initialExam) = 2699"
    by (simp add: timerTick_def initialExam_def)
  from r v countdown_timer [of threeQuestions "handle threeQuestions Tick initialExam"]
  show ?thesis by simp
qed

text \<open>
  C5. On an assignment of three questions, three calls of \<open>handleNext\<close> from the
  initial state give Answering 1, Answering 2 and Reviewing, and \<open>goToQuestion 1\<close>
  from there gives Answering 1. In general \<open>handleNext\<close> adds one to an index below
  the last and sets the review flag at the last index, and \<open>goToQuestion\<close> on an index
  within the questions sets that index and clears the review flag, whatever the state.
\<close>

theorem next_and_jumpTo:
  "(length (questions a) = 3 \<longrightarrow>
      navOf initialExam = Answering 0 \<and>
      navOf (handleNext a initialExam) = Answering 1 \<and>
      navOf (handleNext a (handleNext a initialExam)) = Answering 2 \<and>
      navOf (handleNext a (handleNext a (handleNext a initialExam))) = Reviewing \<and>
      navOf (goToQuestion a 1 (handleNext a (handleNext a (handleNext a initialExam)))) = Answering 1) \<and>
   (navOf s = Answering i \<and> 0 \<le> i \<and> i < int (length (questions a)) - 1 \<longrightarrow>
      handleNext a s = s\<lparr>currentQuestionIndex := i + 1\<rparr> \<and>
      navOf (handleNext a s) = Answering (i + 1)) \<and>
   (navOf s = Answering i \<and> 0 \<le> i \<and> i = int (length (questions a)) - 1 \<longrightarrow>
      handleNext a s = s\<lparr>isReviewing := True\<rparr> \<and> navOf (handleNext a s) = Reviewing) \<and>
   (0 \<le> j \<and> j < int (length (questions a)) \<longrightarrow>
      goToQuestion a j s = s\<lparr>currentQuestionIndex := j, isReviewing := False, showSidebar := False\<rparr> \<and>
      navOf (goToQuestion a j s) = Answering j)"
  by (auto simp: navOf_def handleNext_def goToQuestion_def initialExam_def split: if_splits)

theorem next_and_jumpTo_witness:
  "length (questions threeQuestions) = 3 \<and>
   navOf (handleNext threeQuestions initialExam) = Answering 1 \<and>
   navOf (handleNext threeQuestions (handleNext threeQuestions initialExam)) = Answering 2 \<and>
   navOf (handleNext threeQuestions (handleNext threeQuestions (handleNext threeQuestions initialExam))) = Reviewing \<and>
   navOf (initialExam\<lparr>currentQuestionIndex := 1\<rparr>) = Answering 1 \<and>
   navOf (handleNext threeQuestions (initialExam\<lparr>currentQuestionIndex := 1\<rparr>)) = Answering (1 + 1) \<and>
   navOf (initialExam\<lparr>currentQuestionIndex := 2\<rparr>) = Answering 2 \<and>
   navOf (handleNext threeQuestions (initialExam\<lparr>currentQuestionIndex := 2\<rparr>)) = Reviewing \<and>
   navOf (goToQuestion threeQuestions 1 (initialExam\<lparr>isReviewing := True\<rparr>)) = Answering 1"
proof -
  have len: "length (questions threeQuestions) = 3" by (simp add: threeQuestions_def)
  have n1: "navOf (initialExam\<lparr>currentQuestionIndex := 1\<rparr>) = Answering 1 \<and> (0::int) \<le> 1 \<and>
            (1::int) < int (length (questions threeQuestions)) - 1"
    by (simp add: navOf_def initialExam_def threeQuestions_def)
  have n2: "navOf (initialExam\<lparr>currentQuestionIndex := 2\<rparr>) = Answering 2 \<and> (0::int) \<le> 2 \<and>
            (2::int) = int (length (questions threeQuestions)) - 1"
    by (simp add: navOf_def initialExam_def threeQuestions_def)
  have j: "(0::int) \<le> 1 \<and> (1::int) < int (length (questions threeQuestions))"
    by (simp add: threeQuestions_def)
  from len n1 j next_and_jumpTo [of threeQuestions "initialExam\<lparr>currentQuestionIndex := 1\<rparr>" 1 1]
  have a: "navOf (handleNext threeQuestions initialExam) = Answering 1 \<and>
     navOf (handleNext threeQuestions (handleNext threeQuestions initialExam)) = Answering 2 \<and>
     navOf (handleNext threeQuestions (handleNext threeQuestions (handleNext threeQuestions initialExam))) = Reviewing \<and>
     navOf (handleNext threeQuestions (initialExam\<lparr>currentQuestionIndex := 1\<rparr>)) = Answering (1 + 1)"
    by blast
  from n2 next_and_jumpTo [of threeQuestions "initialExam\<lparr>currentQuestionIndex := 2\<rparr>" 2 1]
  have b: "navOf (handleNext threeQuestions (initialExam\<lparr>currentQuestionIndex := 2\<rparr>)) = Reviewing"
    by blast
  from j next_and_jumpTo [of threeQuestions "initialExam\<lparr>isReviewing := True\<rparr>" 0 1]
  have c: "navOf (goToQuestion threeQuestions 1 (initialExam\<lparr>isReviewing := True\<rparr>)) = Answering 1"
    by blast
  from len n1 n2 a b c show ?thesis by blast
qed

text \<open>
  C9. \<open>handlePrev\<close> from Answering i with i > 0 goes to Answering (i - 1), from
  Answering 0 it changes nothing, and from Reviewing it clears the review flag and
  nothing else, so that the index last set is the one shown.
\<close>

theorem prev_transitions:
  "(navOf s = Answering i \<and> 0 < i \<longrightarrow>
      handlePrev s = s\<lparr>currentQuestionIndex := i - 1\<rparr> \<and> navOf (handlePrev s) = Answering (i - 1)) \<and>
   (navOf s = Answering 0 \<longrightarrow> handlePrev s = s) \<and>
   (navOf s = Reviewing \<longrightarrow>
      handlePrev s = s\<lparr>isReviewing := False\<rparr> \<and>
      navOf (handlePrev s) = Answering (currentQuestionIndex s))"
  by (auto simp: navOf_def handlePrev_def split: if_splits)

theorem prev_transitions_witness:
  "navOf (initialExam\<lparr>currentQuestionIndex := 2\<rparr>) = Answering 2 \<and>
   navOf (handlePrev (initialExam\<lparr>currentQuestionIndex := 2\<rparr>)) = Answering (2 - 1) \<and>
   navOf initialExam = Answering 0 \<and> handlePrev initialExam = initialExam \<and>
   navOf (initialExam\<lparr>currentQuestionIndex := 2, isReviewing := True\<rparr>) = Reviewing \<and>
   navOf (handlePrev (initialExam\<lparr>currentQuestionIndex := 2, isReviewing := True\<rparr>)) =
     Answering (currentQuestionIndex (initialExam\<lparr>currentQuestionIndex := 2, isReviewing := True\<rparr>))"
proof -
  have n2: "navOf (initialExam\<lparr>currentQuestionIndex := 2\<rparr>) = Answering 2 \<and> (0::int) < 2"
    by (simp add: navOf_def initialExam_def)
  have n0: "navOf initialExam = Answering 0" by (simp add: navOf_def initialExam_def)
  have nr: "navOf (initialExam\<lparr>currentQuestionIndex := 2, isReviewing := True\<rparr>) = Reviewing"
    by (simp add: navOf_def)
  from n2 prev_transitions [of "initialExam\<lparr>currentQuestionIndex := 2\<rparr>" 2]
  have a: "navOf (handlePrev (initialExam\<lparr>currentQuestionIndex := 2\<rparr>)) = Answering (2 - 1)"
    by blast
  from n0 prev_transitions [of initialExam 0]
  have b: "handlePrev initialExam = initialExam" by blast
  from nr prev_transitions [of "initialExam\<lparr>currentQuestionIndex := 2, isReviewing := True\<rparr>" 0]
  have c: "navOf (handlePrev (initialExam\<lparr>currentQuestionIndex := 2, isReviewing := True\<rparr>)) =
     Answering (currentQuestionIndex (initialExam\<lparr>currentQuestionIndex := 2, isReviewing := True\<rparr>))"
    by blast
  from n2 n0 nr a b c show ?thesis by blast
qed

subsection \<open>The answer store and the submission\<close>

lemma currentAnswers_change:
  "currentAnswers (handleAnswerChange qId val s) = spreadWith (currentAnswers s) qId val"
  by (simp add: currentAnswers_def handleAnswerChange_def)

lemma applyChanges_snoc:
  "applyChanges (cs @ [c]) s = handleAnswerChange (fst c) (snd c) (applyChanges cs s)"
  by (simp add: applyChanges_def)

lemma store_last_write:
  "map_of (currentAnswers (applyChanges cs initialExam)) = map_of (rev cs)"
proof (induction cs rule: rev_induct)
  case Nil
  show ?case by (simp add: applyChanges_def currentAnswers_def initialExam_def)
next
  case (snoc c cs)
  have "map_of (currentAnswers (applyChanges (cs @ [c]) initialExam)) =
        (map_of (currentAnswers (applyChanges cs initialExam)))(fst c \<mapsto> snd c)"
    by (simp add: applyChanges_snoc currentAnswers_change spreadWith_def update_conv')
  also have "\<dots> = map_of (rev (cs @ [c]))"
    by (cases c) (simp add: snoc.IH)
  finally show ?case .
qed

lemma store_keys:
  "distinct (objectKeys (currentAnswers (applyChanges cs initialExam))) \<and>
   set (objectKeys (currentAnswers (applyChanges cs initialExam))) = fst ` set cs"
proof (induction cs rule: rev_induct)
  case Nil
  show ?case by (simp add: applyChanges_def currentAnswers_def initialExam_def objectKeys_def)
next
  case (snoc c cs)
  then show ?case
    by (auto simp: applyChanges_snoc currentAnswers_change spreadWith_def objectKeys_def
          distinct_update dom_update)
qed

text \<open>
  C3, as the code has it. After any sequence of answer changes the store holds, for
  every key changed, the value of the latest change of that key, and no other key. So
  every entry is a non-empty string when every change was to a non-empty string; a
  change to the empty string leaves the key in the store with the empty string as its
  value.
\<close>

theorem answer_store_last_write:
  "map_of (currentAnswers (applyChanges cs initialExam)) = map_of (rev cs) \<and>
   distinct (objectKeys (currentAnswers (applyChanges cs initialExam))) \<and>
   set (objectKeys (currentAnswers (applyChanges cs initialExam))) = fst ` set cs \<and>
   ((\<forall>c \<in> set cs. snd c \<noteq> []) \<longrightarrow>
      (\<forall>k v. map_of (currentAnswers (applyChanges cs initialExam)) k = Some v \<longrightarrow> v \<noteq> [])) \<and>
   map_of (currentAnswers (applyChanges (cs @ [(k, [])]) initialExam)) k = Some []"
proof -
  have nonempty: "(\<forall>c \<in> set cs. snd c \<noteq> []) \<longrightarrow>
      (\<forall>k v. map_of (currentAnswers (applyChanges cs initialExam)) k = Some v \<longrightarrow> v \<noteq> [])"
  proof (intro impI allI)
    fix k v
    assume all: "\<forall>c \<in> set cs. snd c \<noteq> []"
      and "map_of (currentAnswers (applyChanges cs initialExam)) k = Some v"
    then have "map_of (rev cs) k = Some v" by (simp add: store_last_write)
    then have "(k, v) \<in> set (rev cs)" by (rule map_of_SomeD)
    with all show "v \<noteq> []" by auto
  qed
  have last: "map_of (currentAnswers (applyChanges (cs @ [(k, [])]) initialExam)) k = Some []"
    by (simp add: store_last_write)
  from store_last_write store_keys nonempty last show ?thesis by blast
qed

theorem answer_store_last_write_witness:
  "map snd [(''q3'', ''4''), (''q1'', ''B'')] = [''4'', ''B''] \<and>
   map_of (currentAnswers (applyChanges [(''q3'', ''4''), (''q1'', ''B'')] initialExam)) ''q1'' = Some ''B'' \<and>
   ''B'' \<noteq> []"
proof -
  have h: "\<forall>c \<in> set [(''q3'', ''4''), (''q1'', ''B'')]. snd c \<noteq> []" by simp
  have v: "map_of (currentAnswers (applyChanges [(''q3'', ''4''), (''q1'', ''B'')] initialExam)) ''q1'' = Some ''B''"
    by (simp add: applyChanges_def handleAnswerChange_def currentAnswers_def spreadWith_def initialExam_def)
  have m: "map snd [(''q3'', ''4''), (''q1'', ''B'')] = [''4'', ''B'']" by simp
  from h v answer_store_last_write [of "[(''q3'', ''4''), (''q1'', ''B'')]" "''q1''"]
  have "''B'' \<noteq> []" by blast
  with m v show ?thesis by blast
qed

text \<open>
  C3 as stated fails: typing 4 into the short-answer input and clearing it leaves the
  key in the store with the empty string. The entry counts in \<open>answeredCount\<close>, which
  is 0 for an absent key, while \<open>isAnswered\<close> reports the question as not answered.
\<close>

theorem empty_answer_is_stored:
  "map_of (currentAnswers (applyChanges [(''q3'', ''4''), (''q3'', '''')] initialExam)) ''q3'' = Some '''' \<and>
   objectKeys (currentAnswers (applyChanges [(''q3'', ''4''), (''q3'', '''')] initialExam)) = [''q3''] \<and>
   answeredCount (applyChanges [(''q3'', ''4''), (''q3'', '''')] initialExam) = 1 \<and>
   answeredCount initialExam = 0 \<and>
   \<not> isAnswered (applyChanges [(''q3'', ''4''), (''q3'', '''')] initialExam) ''q3''"
  by (simp add: applyChanges_def handleAnswerChange_def currentAnswers_def spreadWith_def
        initialExam_def objectKeys_def answeredCount_def isAnswered_def jsGet_def)

lemma heap_handle: "\<exists>ext. heap (handle a e s) = heap s @ ext"
  by (cases e)
     (simp_all add: timerTick_def handleAnswerChange_def handlePreSubmit_def
        handleConfirmSubmit_def goToQuestion_def handleNext_def handlePrev_def)

lemma heap_run: "\<exists>ext. heap (run a es s) = heap s @ ext"
proof (induction es arbitrary: s)
  case Nil
  show ?case by (simp add: run_def)
next
  case (Cons e es)
  obtain x where x: "heap (handle a e s) = heap s @ x" using heap_handle by blast
  obtain y where y: "heap (run a es (handle a e s)) = heap (handle a e s) @ y"
    using Cons.IH by blast
  have "run a (e # es) s = run a es (handle a e s)" by (simp add: run_def)
  with x y show ?case by simp
qed

lemma cell_handle: "answersCell s < length (heap s) \<Longrightarrow> answersCell (handle a e s) < length (heap (handle a e s))"
  by (cases e)
     (simp_all add: timerTick_def handleAnswerChange_def handlePreSubmit_def
        handleConfirmSubmit_def goToQuestion_def handleNext_def handlePrev_def)

lemma reachable_cell: "reachable a s \<Longrightarrow> answersCell s < length (heap s)"
proof (induction rule: reachable.induct)
  case reachable_init
  show ?case by (simp add: initialExam_def)
next
  case (reachable_step s e)
  from reachable_step.IH show ?case by (rule cell_handle)
qed

lemma applyChanges_run:
  "applyChanges cs s = run a (map (\<lambda>c. AnswerChange (fst c) (snd c)) cs) s"
  by (induction cs arbitrary: s) (simp_all add: applyChanges_def run_def)

text \<open>
  C6. The submission built at the confirmation holds the reference the cell held then.
  No event handler writes into an allocated object (an answer change allocates a new
  one), so whatever events follow, answer changes among them, every field read from the
  submission is what it was when the submission was built.
\<close>

theorem snapshot_isolation:
  assumes "reachable a s"
  shows "readSubmission (heap (run a es (fst (handleConfirmSubmit a name cls s))))
           (snd (handleConfirmSubmit a name cls s) now) =
         \<lparr>assignmentId = aid a, studentName = name, studentClass = cls,
          answers = currentAnswers s, submittedAt = now\<rparr> \<and>
         readSubmission (heap (applyChanges cs (fst (handleConfirmSubmit a name cls s))))
           (snd (handleConfirmSubmit a name cls s) now) =
         readSubmission (heap (fst (handleConfirmSubmit a name cls s)))
           (snd (handleConfirmSubmit a name cls s) now)"
proof -
  let ?s1 = "fst (handleConfirmSubmit a name cls s)"
  have valid: "answersCell s < length (heap s)" using assms by (rule reachable_cell)
  have h1: "heap ?s1 = heap s" by (simp add: handleConfirmSubmit_def)
  have later: "heap (run a es' ?s1) ! answersCell s = heap s ! answersCell s" for es'
  proof -
    obtain ext where "heap (run a es' ?s1) = heap ?s1 @ ext" using heap_run by blast
    with h1 valid show ?thesis by (simp add: nth_append)
  qed
  have one: "readSubmission (heap (run a es' ?s1)) (snd (handleConfirmSubmit a name cls s) now) =
         \<lparr>assignmentId = aid a, studentName = name, studentClass = cls,
          answers = currentAnswers s, submittedAt = now\<rparr>" for es'
    by (simp add: readSubmission_def handleConfirmSubmit_def currentAnswers_def
          later [simplified handleConfirmSubmit_def, simplified])
  have two: "readSubmission (heap ?s1) (snd (handleConfirmSubmit a name cls s) now) =
         \<lparr>assignmentId = aid a, studentName = name, studentClass = cls,
          answers = currentAnswers s, submittedAt = now\<rparr>"
    using one [of "[]"] by (simp add: run_def)
  show ?thesis using one [of es] one [of "map (\<lambda>c. AnswerChange (fst c) (snd c)) cs"] two
    by (simp add: applyChanges_run [of cs ?s1 a])
qed

theorem snapshot_isolation_witness:
  "reachable threeQuestions (handle threeQuestions (AnswerChange ''q1'' ''B'') initialExam) \<and>
   answers (readSubmission
     (heap (applyChanges [(''q1'', ''C'')]
        (fst (handleConfirmSubmit threeQuestions ''An'' ''9A''
           (handle threeQuestions (AnswerChange ''q1'' ''B'') initialExam)))))
     (snd (handleConfirmSubmit threeQuestions ''An'' ''9A''
        (handle threeQuestions (AnswerChange ''q1'' ''B'') initialExam)) 7)) = [(''q1'', ''B'')] \<and>
   currentAnswers (applyChanges [(''q1'', ''C'')]
        (fst (handleConfirmSubmit threeQuestions ''An'' ''9A''
           (handle threeQuestions (AnswerChange ''q1'' ''B'') initialExam)))) = [(''q1'', ''C'')]"
proof -
  let ?s = "handle threeQuestions (AnswerChange ''q1'' ''B'') initialExam"
  have r: "reachable threeQuestions ?s" by (intro reachable.intros)
  have before: "answers (readSubmission
       (heap (fst (handleConfirmSubmit threeQuestions ''An'' ''9A'' ?s)))
       (snd (handleConfirmSubmit threeQuestions ''An'' ''9A'' ?s) 7)) = [(''q1'', ''B'')]"
    by (simp add: readSubmission_def handleConfirmSubmit_def handleAnswerChange_def
          currentAnswers_def spreadWith_def initialExam_def)
  have store: "currentAnswers (applyChanges [(''q1'', ''C'')]
        (fst (handleConfirmSubmit threeQuestions ''An'' ''9A'' ?s))) = [(''q1'', ''C'')]"
    by (simp add: applyChanges_def handleConfirmSubmit_def handleAnswerChange_def
          currentAnswers_def spreadWith_def initialExam_def)
  from snapshot_isolation [OF r, of "[]" "''An''" "''9A''" 7 "[(''q1'', ''C'')]"] before
  have "answers (readSubmission
     (heap (applyChanges [(''q1'', ''C'')]
        (fst (handleConfirmSubmit threeQuestions ''An'' ''9A'' ?s))))
     (snd (handleConfirmSubmit threeQuestions ''An'' ''9A'' ?s) 7)) = [(''q1'', ''B'')]"
    by simp
  with r store show ?thesis by blast
qed

subsection \<open>The two answer resolvers\<close>

lemmas string_ops = letters_def indexOf_def toUpperCase_def trim_def upperChar_def
  lowerLetters_def upperLetters_def isWhiteSpace_def arrayGet_def

lemma indexOf_letters:
  "i < length letters \<Longrightarrow> indexOf letters (letters ! i) = int i"
proof -
  assume "i < length letters"
  then have "i = 0 \<or> i = 1 \<or> i = 2 \<or> i = 3" by (auto simp: letters_def)
  then show ?thesis by (auto simp: letters_def indexOf_def)
qed

lemma indexOfFrom_absent: "x \<notin> set xs \<Longrightarrow> indexOfFrom xs x i = - 1"
  by (induction xs arbitrary: i) auto

lemma indexOf_absent: "x \<notin> set xs \<Longrightarrow> indexOf xs x = - 1"
  by (simp add: indexOf_def indexOfFrom_absent)


lemma getMCQText_pass:
  "k \<noteq> [] \<Longrightarrow> qtype q \<noteq> MCQ \<or> options q = None \<Longrightarrow> getMCQText q (Some k) = Some k"
  by (auto simp: getMCQText_def)

lemma getMCQText_hit:
  "k \<noteq> [] \<Longrightarrow> qtype q = MCQ \<Longrightarrow> options q = Some opts \<Longrightarrow> i < length letters \<Longrightarrow>
   toUpperCase (trim k) = letters ! i \<Longrightarrow> i < length opts \<Longrightarrow> opts ! i \<noteq> [] \<Longrightarrow>
   getMCQText q (Some k) = Some (opts ! i)"
  by (simp add: getMCQText_def indexOf_letters arrayGet_def Let_def)

lemma getMCQText_miss:
  "k \<noteq> [] \<Longrightarrow> qtype q = MCQ \<Longrightarrow> options q = Some opts \<Longrightarrow> i < length letters \<Longrightarrow>
   toUpperCase (trim k) = letters ! i \<Longrightarrow> length opts \<le> i \<or> opts ! i = [] \<Longrightarrow>
   getMCQText q (Some k) = Some k"
  by (auto simp: getMCQText_def indexOf_letters arrayGet_def Let_def)

lemma getMCQText_other:
  "k \<noteq> [] \<Longrightarrow> toUpperCase (trim k) \<notin> set letters \<Longrightarrow> getMCQText q (Some k) = Some k"
  by (simp add: getMCQText_def indexOf_absent)

text \<open>
  C4, as the code has it. \<open>getMCQText\<close> returns \<open>null\<close> for an absent or empty
  token and the token itself for a question that is not multiple-choice or has no
  options. For a multiple-choice question with options it upper-cases the trimmed token
  and looks it up in A, B, C, D: at a position where the options hold a non-empty text it
  returns that text; where the letter is not found, the options are too short or the
  option text is empty, it returns the token. For options x, y, z, w and the token b the
  result is y.
\<close>

theorem getMCQText_resolves:
  "getMCQText q None = None \<and>
   getMCQText q (Some []) = None \<and>
   (k \<noteq> [] \<and> (qtype q \<noteq> MCQ \<or> options q = None) \<longrightarrow> getMCQText q (Some k) = Some k) \<and>
   (k \<noteq> [] \<and> qtype q = MCQ \<and> options q = Some opts \<and>
    i < length letters \<and> toUpperCase (trim k) = letters ! i \<and> i < length opts \<and> opts ! i \<noteq> [] \<longrightarrow>
      getMCQText q (Some k) = Some (opts ! i)) \<and>
   (k \<noteq> [] \<and> qtype q = MCQ \<and> options q = Some opts \<and>
    i < length letters \<and> toUpperCase (trim k) = letters ! i \<and> (length opts \<le> i \<or> opts ! i = []) \<longrightarrow>
      getMCQText q (Some k) = Some k) \<and>
   (k \<noteq> [] \<and> qtype q = MCQ \<and> options q = Some opts \<and> toUpperCase (trim k) \<notin> set letters \<longrightarrow>
      getMCQText q (Some k) = Some k) \<and>
   (qtype q = MCQ \<and> options q = Some [''x'', ''y'', ''z'', ''w''] \<longrightarrow>
      getMCQText q (Some ''b'') = Some ''y'')"
proof -
  have absent: "getMCQText q None = None \<and> getMCQText q (Some []) = None"
    by (simp add: getMCQText_def)
  have example: "qtype q = MCQ \<and> options q = Some [''x'', ''y'', ''z'', ''w''] \<longrightarrow>
      getMCQText q (Some ''b'') = Some ''y''"
    by (simp add: getMCQText_def string_ops)
  from absent example getMCQText_pass [of k q] getMCQText_hit [of k q opts i]
    getMCQText_miss [of k q opts i] getMCQText_other [of k q]
  show ?thesis by blast
qed

text \<open>
  C4 as stated fails where position and option both exist and the option text is empty:
  for the options "", y, z, w and the token A the position is 0, the option there is the
  empty string, and the result is the token A.
\<close>

theorem empty_option_gives_key:
  "getMCQText emptyOptionQuestion (Some ''A'') = Some ''A'' \<and>
   indexOf letters (toUpperCase (trim ''A'')) = 0 \<and>
   arrayGet (the (options emptyOptionQuestion)) 0 = Some ''''"
  by (simp add: getMCQText_def emptyOptionQuestion_def string_ops)


theorem getMCQText_resolves_witness:
  "'' b '' \<noteq> [] \<and> qtype letterQuestion = MCQ \<and>
   options letterQuestion = Some [''x'', ''y'', ''z'', ''w''] \<and>
   toUpperCase (trim '' b '') = letters ! 1 \<and>
   getMCQText letterQuestion (Some '' b '') = Some ([''x'', ''y'', ''z'', ''w''] ! 1) \<and>
   getMCQText letterQuestion (Some ''b'') = Some ''y'' \<and>
   toUpperCase (trim [CHR 0xA0, CHR ''b'']) = letters ! 1 \<and>
   getMCQText letterQuestion (Some [CHR 0xA0, CHR ''b'']) = Some ([''x'', ''y'', ''z'', ''w''] ! 1) \<and>
   qtype shortQuestion \<noteq> MCQ \<and> getMCQText shortQuestion (Some '' b '') = Some '' b '' \<and>
   toUpperCase (trim ''e'') \<notin> set letters \<and> getMCQText letterQuestion (Some ''e'') = Some ''e'' \<and>
   toUpperCase (trim ''A'') = letters ! 0 \<and> [[]] ! 0 = ([] :: string) \<and>
   getMCQText (letterQuestion\<lparr>options := Some [[]]\<rparr>) (Some ''A'') = Some ''A''"
proof -
  have q: "qtype letterQuestion = MCQ \<and> options letterQuestion = Some [''x'', ''y'', ''z'', ''w'']"
    by (simp add: letterQuestion_def)
  have k: "'' b '' \<noteq> [] \<and> (1::nat) < length letters \<and> toUpperCase (trim '' b '') = letters ! 1 \<and>
           (1::nat) < length [''x'', ''y'', ''z'', ''w''] \<and> [''x'', ''y'', ''z'', ''w''] ! 1 \<noteq> []"
    by (simp add: string_ops)
  have n: "[CHR 0xA0, CHR ''b''] \<noteq> [] \<and> toUpperCase (trim [CHR 0xA0, CHR ''b'']) = letters ! 1"
    by (simp add: string_ops)
  have sq: "qtype shortQuestion \<noteq> MCQ" by (simp add: shortQuestion_def)
  have e: "''e'' \<noteq> [] \<and> toUpperCase (trim ''e'') \<notin> set letters" by (simp add: string_ops)
  have q0: "qtype (letterQuestion\<lparr>options := Some [[]]\<rparr>) = MCQ \<and>
            options (letterQuestion\<lparr>options := Some [[]]\<rparr>) = Some [[]]"
    by (simp add: letterQuestion_def)
  have a: "''A'' \<noteq> [] \<and> (0::nat) < length letters \<and> toUpperCase (trim ''A'') = letters ! 0 \<and>
           [[]] ! 0 = ([] :: string)"
    by (simp add: string_ops)
  from q k getMCQText_resolves [of letterQuestion "'' b ''" "[''x'', ''y'', ''z'', ''w'']" 1]
  have r1: "getMCQText letterQuestion (Some '' b '') = Some ([''x'', ''y'', ''z'', ''w''] ! 1) \<and>
            getMCQText letterQuestion (Some ''b'') = Some ''y''"
    by blast
  from q k n getMCQText_resolves [of letterQuestion "[CHR 0xA0, CHR ''b'']" "[''x'', ''y'', ''z'', ''w'']" 1]
  have r1n: "getMCQText letterQuestion (Some [CHR 0xA0, CHR ''b'']) =
      Some ([''x'', ''y'', ''z'', ''w''] ! 1)"
    by blast
  from sq k getMCQText_resolves [of shortQuestion "'' b ''" "[]" 0]
  have r2: "getMCQText shortQuestion (Some '' b '') = Some '' b ''" by blast
  from q e getMCQText_resolves [of letterQuestion "''e''" "[''x'', ''y'', ''z'', ''w'']" 0]
  have r3: "getMCQText letterQuestion (Some ''e'') = Some ''e''" by blast
  from q0 a getMCQText_resolves [of "letterQuestion\<lparr>options := Some [[]]\<rparr>" "''A''" "[[]]" 0]
  have r4: "getMCQText (letterQuestion\<lparr>options := Some [[]]\<rparr>) (Some ''A'') = Some ''A''"
    by blast
  from q k n sq e a r1 r1n r2 r3 r4 show ?thesis by blast
qed



subsection \<open>Rounding to doubles\<close>

lemma roundHalfEven_int: "roundHalfEven (of_int n) = n"
  by (simp add: roundHalfEven_def)

lemma roundToDouble_pos_int:
  assumes "0 < i" "i < 2 ^ 53"
  shows "roundToDouble (of_int i) = Num (of_int i)"
proof -
  define e where "e = bitlen i - 1"
  have e0: "0 \<le> e" using assms(1) by (simp add: e_def bitlen_alt_def)
  have "bitlen i \<le> 53" using assms(2) by (simp add: bitlen_le_iff_power)
  then have e52: "e \<le> 52" by (simp add: e_def)
  have bin: "binExp (of_int i) = e"
    using assms(1) by (simp add: binExp_def e_def)
  have m: "max e (- 1022) = e" using e0 by simp
  define k where "k = nat (52 - e)"
  have u: "pow2 (e - 52) = 1 / 2 ^ k"
    using e52 by (auto simp: pow2_def k_def)
  have q: "rat_of_int i / pow2 (e - 52) = of_int (i * 2 ^ k)"
    using assms(1) by (simp add: u)
  have r: "of_int (roundHalfEven (rat_of_int i / pow2 (e - 52))) * pow2 (e - 52) = rat_of_int i"
    unfolding q roundHalfEven_int by (simp add: u)
  have small: "\<not> pow2 1024 \<le> rat_of_int i"
  proof -
    have "rat_of_int i < of_int (2 ^ 53)" using assms(2) by (simp only: of_int_less_iff)
    also have "\<dots> \<le> pow2 1024" by (simp add: pow2_def)
    finally show ?thesis by simp
  qed
  show ?thesis
    using assms(1) small by (simp add: roundToDouble_def bin m r Let_def)
qed

lemma roundToDouble_nat:
  assumes "n < 2 ^ 53"
  shows "roundToDouble (of_nat n) = Num (of_nat n)"
proof (cases "n = 0")
  case True
  then show ?thesis by (simp add: roundToDouble_def)
next
  case False
  have "int n < 2 ^ 53" using assms by (metis of_nat_less_iff of_nat_numeral of_nat_power)
  with False roundToDouble_pos_int [of "int n"] show ?thesis by simp
qed

lemma roundToDouble_small:
  "roundToDouble 0 = Num 0" "roundToDouble 1 = Num 1" "roundToDouble 2 = Num 2"
  "roundToDouble 5 = Num 5" "roundToDouble 7 = Num 7" "roundToDouble 10 = Num 10"
  "roundToDouble 20 = Num 20" "roundToDouble 505 = Num 505" "roundToDouble 1010 = Num 1010"
  using roundToDouble_nat [of 0] roundToDouble_nat [of 1] roundToDouble_nat [of 2]
    roundToDouble_nat [of 5] roundToDouble_nat [of 7] roundToDouble_nat [of 10]
    roundToDouble_nat [of 20] roundToDouble_nat [of 505] roundToDouble_nat [of 1010]
  by simp_all

lemma roundToDouble_fractions:
  "roundToDouble (1 / 2) = Num (1 / 2)"
  "roundToDouble (101 / 2) = Num (101 / 2)"
  "roundToDouble (1 / 10) = Num (3602879701896397 / 36028797018963968)"
  "roundToDouble (7 / 10) = Num (3152519739159347 / 4503599627370496)"
  "roundToDouble (15762598695796735 / 2251799813685248) = Num 7"
  "roundToDouble (18014398509481985 / 18014398509481984) = Num 1"
  "roundToDouble (3 / 200) = Num (1080863910568919 / 72057594037927936)"
  "roundToDouble (5404319552844595 / 36028797018963968) =
     Num (5404319552844595 / 36028797018963968)"
  by code_simp+

lemma toFixed1_tenths: "toFixed1 (of_int m / 10) = of_int m / 10"
proof (cases "m < 0")
  case True
  have "\<lfloor>(of_int (- m) :: rat) + 1 / 2\<rfloor> = - m" by (rule floor_unique) simp_all
  with True show ?thesis by (simp add: toFixed1_def)
next
  case False
  have "\<lfloor>(of_int m :: rat) + 1 / 2\<rfloor> = m" by (rule floor_unique) simp_all
  with False show ?thesis by (simp add: toFixed1_def)
qed


lemma toFixed1_values:
  "toFixed1 0 = 0" "toFixed1 1 = 1" "toFixed1 5 = 5" "toFixed1 7 = 7"
  "toFixed1 10 = 10" "toFixed1 20 = 20" "toFixed1 505 = 505"
  "toFixed1 (5404319552844595 / 36028797018963968) = 1 / 10"
  "toFixed1 (3 / 200 * 10) = 1 / 5"
  by code_simp+

lemma parseFloatToFixed1_values:
  "parseFloatToFixed1 (Num 0) = Num 0" "parseFloatToFixed1 (Num 1) = Num 1"
  "parseFloatToFixed1 (Num 5) = Num 5" "parseFloatToFixed1 (Num 7) = Num 7"
  "parseFloatToFixed1 (Num 10) = Num 10" "parseFloatToFixed1 (Num 20) = Num 20"
  "parseFloatToFixed1 (Num 505) = Num 505"
  by (simp_all add: toFixed1_values roundToDouble_small)


subsection \<open>The grading reduction\<close>

lemma keys_jsSet:
  "set (objectKeys (jsSet obj k v)) =
     (if k = ''__proto__'' then set (objectKeys obj) else insert k (set (objectKeys obj)))"
  by (simp add: jsSet_def objectKeys_def dom_update)

lemma earnedFrom_skip: "\<not> hasId item \<Longrightarrow> earnedFrom conv e (item # items) = earnedFrom conv e items"
  by (simp add: earnedFrom_def)

lemma earnedFrom_step:
  "hasId item \<Longrightarrow>
   earnedFrom conv e (item # items) = earnedFrom conv (addScore conv e (itemScore item)) items"
  by (simp add: earnedFrom_def)

lemma forEachAssessment_items:
  "\<exists>fm'. forEachAssessment conv (map Item items) (fm, e) = Inr (fm', earnedFrom conv e items) \<and>
         set (objectKeys fm') = set (objectKeys fm) \<union> (assessedIds items - {''__proto__''})"
proof (induction items arbitrary: fm e)
  case Nil
  show ?case by (simp add: earnedFrom_def assessedIds_def)
next
  case (Cons item items)
  show ?case
  proof (cases "hasId item")
    case False
    then have ids: "assessedIds (item # items) = assessedIds items"
      by (cases "questionId item") (auto simp: assessedIds_def hasId_def)
    from False have "forEachAssessment conv (map Item (item # items)) (fm, e) =
        forEachAssessment conv (map Item items) (fm, e)"
      by (simp add: hasId_def)
    with Cons.IH [of fm e] ids earnedFrom_skip [OF False, of conv e items] show ?thesis by simp
  next
    case True
    then obtain k where k: "questionId item = Some k" "k \<noteq> []"
      by (cases "questionId item") (auto simp: hasId_def)
    let ?fm = "jsSet fm k (orElse (itemFeedback item) noFeedback)"
    let ?e = "addScore conv e (itemScore item)"
    from k have step: "forEachAssessment conv (map Item (item # items)) (fm, e) =
        forEachAssessment conv (map Item items) (?fm, ?e)"
      by simp
    from k have ids: "assessedIds (item # items) = insert k (assessedIds items)"
      by (auto simp: assessedIds_def)
    obtain fm' where fm': "forEachAssessment conv (map Item items) (?fm, ?e) =
        Inr (fm', earnedFrom conv ?e items)"
      "set (objectKeys fm') = set (objectKeys ?fm) \<union> (assessedIds items - {''__proto__''})"
      using Cons.IH [of ?fm ?e] by blast
    from fm' step earnedFrom_step [OF True, of conv e items]
    have "forEachAssessment conv (map Item (item # items)) (fm, e) =
        Inr (fm', earnedFrom conv e (item # items))"
      by simp
    moreover from fm' ids have "set (objectKeys fm') =
        set (objectKeys fm) \<union> (assessedIds (item # items) - {''__proto__''})"
      by (auto simp: keys_jsSet)
    ultimately show ?thesis by blast
  qed
qed

lemma forEachQuestion_keys:
  "set (objectKeys (forEachQuestion qs fm)) =
     set (objectKeys fm) \<union> {k \<in> qid ` set qs. k \<notin> set objectPrototypeKeys}"
proof (induction qs arbitrary: fm)
  case Nil
  show ?case by simp
next
  case (Cons q qs)
  have proto: "''__proto__'' \<in> set objectPrototypeKeys" by (simp add: objectPrototypeKeys_def)
  have own: "map_of fm (qid q) = Some v \<Longrightarrow> qid q \<in> set (objectKeys fm)" for v
    by (auto simp: objectKeys_def dest: map_of_SomeD intro: rev_image_eqI)
  have one: "set (objectKeys (if \<not> truthy (jsGet fm (qid q)) then jsSet fm (qid q) notAssessed else fm)) =
      set (objectKeys fm) \<union> {k. k = qid q \<and> k \<notin> set objectPrototypeKeys}"
  proof (cases "map_of fm (qid q)")
    case None
    with proto show ?thesis by (auto simp: jsGet_def keys_jsSet)
  next
    case (Some v)
    with own [of v] proto show ?thesis by (auto simp: jsGet_def keys_jsSet)
  qed
  show ?case by (auto simp: Cons.IH one)
qed

lemma reduceGrading_items:
  "\<exists>fm. reduceGrading conv a (Data (ArrayOf (map Item items)) c) =
        Inr \<lparr>score = parseFloatToFixed1
                 (normalizedScore conv (earnedBy conv items) (rat_of_nat (length (questions a)) * 10)),
             totalScore = Num 10, feedback = forEachQuestion (questions a) fm,
             overallComment = orElse c completed\<rparr> \<and>
      set (objectKeys fm) = assessedIds items - {''__proto__''}"
proof -
  obtain fm where fm: "forEachAssessment conv (map Item items) ([], NumberEarned (Num 0)) =
        Inr (fm, earnedFrom conv (NumberEarned (Num 0)) items)"
      "set (objectKeys fm) = set (objectKeys []) \<union> (assessedIds items - {''__proto__''})"
    using forEachAssessment_items [of conv items "[]" "NumberEarned (Num 0)"] by blast
  then show ?thesis by (auto simp: reduceGrading_def objectKeys_def earnedBy_def)
qed

lemma reduceGrading_falsy:
  "reduceGrading conv a (Data FalsyValue c) =
        Inr \<lparr>score = parseFloatToFixed1
                 (normalizedScore conv (NumberEarned (Num 0)) (rat_of_nat (length (questions a)) * 10)),
             totalScore = Num 10, feedback = forEachQuestion (questions a) [],
             overallComment = orElse c completed\<rparr>"
  by (simp add: reduceGrading_def)

lemma reduceGrading_result:
  assumes "av = FalsyValue \<and> items = [] \<or> av = ArrayOf (map Item items)"
  shows "\<exists>fm. reduceGrading conv a (Data av c) =
        Inr \<lparr>score = parseFloatToFixed1
                 (normalizedScore conv (earnedBy conv items) (rat_of_nat (length (questions a)) * 10)),
             totalScore = Num 10, feedback = forEachQuestion (questions a) fm,
             overallComment = orElse c completed\<rparr> \<and>
      set (objectKeys fm) = assessedIds items - {''__proto__''}"
proof (cases "av = FalsyValue \<and> items = []")
  case True
  then have "reduceGrading conv a (Data av c) =
        Inr \<lparr>score = parseFloatToFixed1
                 (normalizedScore conv (earnedBy conv items) (rat_of_nat (length (questions a)) * 10)),
             totalScore = Num 10, feedback = forEachQuestion (questions a) [],
             overallComment = orElse c completed\<rparr>"
    by (simp add: reduceGrading_falsy earnedBy_def earnedFrom_def)
  moreover have "set (objectKeys []) = assessedIds [] - {''__proto__''}"
    by (simp add: objectKeys_def assessedIds_def)
  ultimately show ?thesis using True by blast
next
  case False
  with assms have "av = ArrayOf (map Item items)" by blast
  with reduceGrading_items [of conv a items c] show ?thesis by blast
qed

text \<open>
  C1, as the code has it. Whenever the parsed response has no array of assessments or an
  array without \<open>null\<close> elements, the reduction returns a result, and the keys of its
  feedback object are the non-empty identifiers of the assessments (whether or not the
  assignment has such a question; \<open>__proto__\<close> apart, which a property write never
  creates) together with the identifiers of the assignment's questions (names inherited
  from \<open>Object.prototype\<close> apart, which the backfill test takes for present). So the
  key set is the set of the question identifiers exactly when every assessed identifier
  is one of them and none of them is such an inherited name.
\<close>

theorem feedback_keys:
  assumes shape: "av = FalsyValue \<and> items = [] \<or> av = ArrayOf (map Item items)"
  shows "\<exists>r. reduceGrading conv a (Data av c) = Inr r \<and>
      set (objectKeys (feedback r)) =
        (assessedIds items - {''__proto__''}) \<union>
        {k \<in> qid ` set (questions a). k \<notin> set objectPrototypeKeys} \<and>
      (assessedIds items \<subseteq> qid ` set (questions a) \<and>
       qid ` set (questions a) \<inter> set objectPrototypeKeys = {} \<longrightarrow>
         set (objectKeys (feedback r)) = qid ` set (questions a))"
proof -
  from shape obtain fm where fm: "reduceGrading conv a (Data av c) =
        Inr \<lparr>score = parseFloatToFixed1
                 (normalizedScore conv (earnedBy conv items) (rat_of_nat (length (questions a)) * 10)),
             totalScore = Num 10, feedback = forEachQuestion (questions a) fm,
             overallComment = orElse c completed\<rparr>"
      and keys: "set (objectKeys fm) = assessedIds items - {''__proto__''}"
    using reduceGrading_result [of av items conv a c] by blast
  let ?r = "\<lparr>score = parseFloatToFixed1
                 (normalizedScore conv (earnedBy conv items) (rat_of_nat (length (questions a)) * 10)),
             totalScore = Num 10, feedback = forEachQuestion (questions a) fm,
             overallComment = orElse c completed\<rparr>"
  have all: "set (objectKeys (feedback ?r)) =
        (assessedIds items - {''__proto__''}) \<union>
        {k \<in> qid ` set (questions a). k \<notin> set objectPrototypeKeys}"
    by (simp add: forEachQuestion_keys keys)
  have proto: "''__proto__'' \<in> set objectPrototypeKeys" by (simp add: objectPrototypeKeys_def)
  have known: "assessedIds items \<subseteq> qid ` set (questions a) \<and>
       qid ` set (questions a) \<inter> set objectPrototypeKeys = {} \<longrightarrow>
         set (objectKeys (feedback ?r)) = qid ` set (questions a)"
    unfolding all using proto by blast
  from fm all known show ?thesis by blast
qed

lemmas grading_ops = reduceGrading_def assessed_def scored_def oneQuestion_def letterQuestion_def
  jsSet_def jsGet_def orElse_def normalizedScore_def addScore_def objectPrototypeKeys_def
  roundToDouble_small roundToDouble_fractions parseFloatToFixed1_values toFixed1_values

text \<open>
  C1 as stated fails: an assessment for the identifier zz, which the one-question
  assignment does not have, is not ignored. Its feedback stays in the result, whose keys
  are zz and q1.
\<close>

theorem unknown_id_is_kept:
  "reduceGrading decimalConversions (oneQuestion letterQuestion)
     (Data (ArrayOf [assessed ''zz'' (NumScore (Num 7))]) (Some ''fine'')) =
   Inr \<lparr>score = Num 7, totalScore = Num 10, feedback = [(''zz'', ''ok''), (''q1'', notAssessed)],
        overallComment = ''fine''\<rparr> \<and>
   questions (oneQuestion letterQuestion) = [letterQuestion] \<and> qid letterQuestion = ''q1''"
  by (simp add: grading_ops)










theorem feedback_keys_witness:
  "assessedIds [scored ''q1'' (NumScore (Num 10))] \<subseteq> qid ` set (questions (oneQuestion letterQuestion)) \<and>
   qid ` set (questions (oneQuestion letterQuestion)) \<inter> set objectPrototypeKeys = {} \<and>
   (\<exists>r. reduceGrading decimalConversions (oneQuestion letterQuestion)
           (Data (ArrayOf (map Item [scored ''q1'' (NumScore (Num 10))])) None) = Inr r \<and>
        set (objectKeys (feedback r)) = qid ` set (questions (oneQuestion letterQuestion)))"
proof -
  have ids: "assessedIds [scored ''q1'' (NumScore (Num 10))] \<subseteq>
      qid ` set (questions (oneQuestion letterQuestion))"
    by (auto simp: assessedIds_def scored_def oneQuestion_def letterQuestion_def)
  have proto: "qid ` set (questions (oneQuestion letterQuestion)) \<inter> set objectPrototypeKeys = {}"
    by (simp add: oneQuestion_def letterQuestion_def objectPrototypeKeys_def)
  have shape: "ArrayOf (map Item [scored ''q1'' (NumScore (Num 10))]) = FalsyValue \<and>
      [scored ''q1'' (NumScore (Num 10))] = [] \<or>
      ArrayOf (map Item [scored ''q1'' (NumScore (Num 10))]) =
        ArrayOf (map Item [scored ''q1'' (NumScore (Num 10))])"
    by simp
  from ids proto
    feedback_keys [OF shape, of decimalConversions "oneQuestion letterQuestion" None]
  show ?thesis by blast
qed


subsection \<open>Failure of the grading call\<close>



lemma reduceGrading_no_assessments:
  "reduceGrading conv a (Data FalsyValue c) =
     Inr \<lparr>score = Num 0, totalScore = Num 10, feedback = forEachQuestion (questions a) [],
          overallComment = orElse c completed\<rparr>"
  by (simp add: reduceGrading_def normalizedScore_def roundToDouble_small toFixed1_values)

text \<open>
  C7 as stated fails: a response that has nothing of the expected shape need not make
  the grading fail. The response text 7 parses to a number, which has no field
  \<open>assessments\<close>, and an absent text is read as the empty object: in both cases a result
  is returned, with the one question backfilled and the score 0, and no error is
  recorded.
\<close>

theorem shapeless_response_is_graded:
  "gradeSubmission decimalConversions (\<lambda>p. Resolves (Some ''7'')) sampleParse
     (oneQuestion letterQuestion) sampleSubmission =
   Inr \<lparr>score = Num 0, totalScore = Num 10, feedback = [(''q1'', notAssessed)],
        overallComment = completed\<rparr> \<and>
   gradeSubmission decimalConversions (\<lambda>p. Resolves None) sampleParse
     (oneQuestion letterQuestion) sampleSubmission =
   Inr \<lparr>score = Num 0, totalScore = Num 10, feedback = [(''q1'', notAssessed)],
        overallComment = completed\<rparr> \<and>
   errorMsg (fetchGrade decimalConversions (\<lambda>p. Resolves (Some ''7'')) sampleParse
     (oneQuestion letterQuestion) sampleSubmission ''t@school.edu'' initialResult) = None"
proof -
  have seven: "sampleParse (cleanJsonText ''7'') = Some (Data FalsyValue None)"
    by (simp add: sampleParse_def cleanJsonText_def orElse_def indexOf_def lastIndexOf_def
          trim_def isWhiteSpace_def)
  have absent: "sampleParse (cleanJsonText ''{}'') = Some (Data FalsyValue None)"
    by (simp add: sampleParse_def cleanJsonText_def orElse_def indexOf_def lastIndexOf_def
          substring_def)
  have keys: "forEachQuestion (questions (oneQuestion letterQuestion)) [] = [(''q1'', notAssessed)]"
    by (simp add: oneQuestion_def letterQuestion_def jsGet_def jsSet_def objectPrototypeKeys_def)
  have g7: "gradeSubmission decimalConversions (\<lambda>p. Resolves (Some ''7'')) sampleParse
     (oneQuestion letterQuestion) sampleSubmission =
   Inr \<lparr>score = Num 0, totalScore = Num 10, feedback = [(''q1'', notAssessed)],
        overallComment = completed\<rparr>"
    by (simp add: gradeSubmission_def seven reduceGrading_no_assessments keys orElse_def)
  have g0: "gradeSubmission decimalConversions (\<lambda>p. Resolves None) sampleParse
     (oneQuestion letterQuestion) sampleSubmission =
   Inr \<lparr>score = Num 0, totalScore = Num 10, feedback = [(''q1'', notAssessed)],
        overallComment = completed\<rparr>"
    by (simp add: gradeSubmission_def absent reduceGrading_no_assessments keys orElse_def)
  have f7: "errorMsg (fetchGrade decimalConversions (\<lambda>p. Resolves (Some ''7'')) sampleParse
     (oneQuestion letterQuestion) sampleSubmission ''t@school.edu'' initialResult) = None"
    by (simp add: fetchGrade_def g7)
  from g7 g0 f7 show ?thesis by blast
qed




end
